theory Spec2Isabelle
  imports Main
begin

section \<open>Credential values\<close>

text \<open>
  \<^verbatim>\<open>enum SignatureType { V4 = "S3v4", Anonymous = "Anonymous" }\<close> and the interface
  \<^verbatim>\<open>ICredentials { accessKey; secretKey; sessionToken?; signerType }\<close>.
  An optional field that is absent (\<^verbatim>\<open>undefined\<close>) is \<open>None\<close>. The three key fields
  form a record of their own, extended by \<open>signerType\<close>, because the metadata-service
  provider builds an object literal that has the three keys only.
\<close>

datatype SignatureType = V4 | Anonymous

record CredKeys =
  accessKey :: string
  secretKey :: string
  sessionToken :: "string option"

record ICredentials = CredKeys +
  signerType :: SignatureType

definition AnonymousCredentials :: ICredentials where
  "AnonymousCredentials =
     \<lparr>accessKey = '''', secretKey = '''', sessionToken = None, signerType = Anonymous\<rparr>"

section \<open>The provider interface\<close>

text \<open>
  \<^verbatim>\<open>interface IProvider { retrieve(): Promise<ICredentials>; isExpired(): boolean }\<close>.
  A provider is an object with state of its own that may read the process environment,
  the clock and the network. All of that is the world \<open>'w\<close>: \<open>retrieve\<close> takes the world
  and returns the promise together with the world it leaves, \<open>isExpired\<close> reads the world.
  The promise type \<open>'r\<close> is left open: the credential cache stores and returns the
  promise without looking into it, the chain looks at how it settles, and there the
  promise is its outcome, \<open>Inl e\<close> for a rejection with \<open>e\<close> and \<open>Inr cred\<close> for a
  resolution with \<open>cred\<close>.
\<close>

record ('w, 'r) IProvider =
  retrieve :: "'w \<Rightarrow> 'r \<times> 'w"
  isExpired :: "'w \<Rightarrow> bool"

type_synonym 'e outcome = "'e + ICredentials"

type_synonym environment = "string \<Rightarrow> string option"

section \<open>StaticCred\<close>

record StaticCred =
  cred :: ICredentials

text \<open>The constructor; \<^verbatim>\<open>signerType: SignatureType = SignatureType.V4\<close> is a default
  parameter, taken when the argument is absent.\<close>

definition StaticCred_new ::
  "string \<Rightarrow> string \<Rightarrow> string option \<Rightarrow> SignatureType option \<Rightarrow> StaticCred" where
  "StaticCred_new accessKeyArg secretKeyArg sessionTokenArg signerTypeArg =
     \<lparr>cred = \<lparr>accessKey = accessKeyArg, secretKey = secretKeyArg,
              sessionToken = sessionTokenArg,
              signerType = (case signerTypeArg of None \<Rightarrow> V4 | Some s \<Rightarrow> s)\<rparr>\<rparr>"

definition StaticCred_retrieve :: "StaticCred \<Rightarrow> 'e outcome" where
  "StaticCred_retrieve this = Inr (cred this)"

definition StaticCred_isExpired :: "StaticCred \<Rightarrow> bool" where
  "StaticCred_isExpired this = False"

text \<open>A static provider seen through the interface: it touches nothing of the world.\<close>

definition StaticCred_provider :: "StaticCred \<Rightarrow> ('w, 'e outcome) IProvider" where
  "StaticCred_provider this =
     \<lparr>retrieve = (\<lambda>w. (StaticCred_retrieve this, w)),
      isExpired = (\<lambda>w. StaticCred_isExpired this)\<rparr>"

section \<open>Environment providers\<close>

text \<open>
  \<^verbatim>\<open>process.env\<close> maps a name to a string, or to \<^verbatim>\<open>undefined\<close> when the variable is
  not set. A destructuring default \<^verbatim>\<open>{ NAME = "" } = process.env\<close> replaces
  \<^verbatim>\<open>undefined\<close>, and nothing else, by the default.
\<close>

definition withDefault :: "string option \<Rightarrow> string \<Rightarrow> string" where
  "withDefault v d = (case v of None \<Rightarrow> d | Some s \<Rightarrow> s)"

record EnvMinio =
  minioRetrieved :: bool

definition EnvMinio_new :: EnvMinio where
  "EnvMinio_new = \<lparr>minioRetrieved = False\<rparr>"

definition EnvMinio_retrieve :: "environment \<Rightarrow> EnvMinio \<Rightarrow> 'e outcome \<times> EnvMinio" where
  "EnvMinio_retrieve env this =
     (let MINIO_ACCESS_KEY = withDefault (env ''MINIO_ACCESS_KEY'') '''';
          MINIO_SECRET_KEY = withDefault (env ''MINIO_SECRET_KEY'') '''';
          c = \<lparr>accessKey = MINIO_ACCESS_KEY, secretKey = MINIO_SECRET_KEY,
               sessionToken = None,
               signerType = (if MINIO_ACCESS_KEY = '''' \<or> MINIO_SECRET_KEY = ''''
                             then Anonymous else V4)\<rparr>
      in (Inr c, this\<lparr>minioRetrieved := True\<rparr>))"

definition EnvMinio_isExpired :: "EnvMinio \<Rightarrow> bool" where
  "EnvMinio_isExpired this = (\<not> minioRetrieved this)"

record EnvAWS =
  awsRetrieved :: bool

definition EnvAWS_new :: EnvAWS where
  "EnvAWS_new = \<lparr>awsRetrieved = False\<rparr>"

text \<open>The test for the signature kind is \<^verbatim>\<open>accessKey == "" || accessKey == ""\<close> in the
  source, the access key twice.\<close>

definition EnvAWS_retrieve :: "environment \<Rightarrow> EnvAWS \<Rightarrow> 'e outcome \<times> EnvAWS" where
  "EnvAWS_retrieve env this =
     (let AWS_ACCESS_KEY_ID = withDefault (env ''AWS_ACCESS_KEY_ID'') '''';
          AWS_ACCESS_KEY = withDefault (env ''AWS_ACCESS_KEY'') '''';
          AWS_SECRET_ACCESS_KEY = withDefault (env ''AWS_SECRET_ACCESS_KEY'') '''';
          AWS_SECRET_KEY = withDefault (env ''AWS_SECRET_KEY'') '''';
          AWS_SESSION_TOKEN = env ''AWS_SESSION_TOKEN'';
          accessKeyV = (if AWS_ACCESS_KEY_ID = '''' then AWS_ACCESS_KEY else AWS_ACCESS_KEY_ID);
          secretKeyV = (if AWS_SECRET_ACCESS_KEY = '''' then AWS_SECRET_KEY
                        else AWS_SECRET_ACCESS_KEY);
          c = \<lparr>accessKey = accessKeyV, secretKey = secretKeyV,
               sessionToken = AWS_SESSION_TOKEN,
               signerType = (if accessKeyV = '''' \<or> accessKeyV = ''''
                             then Anonymous else V4)\<rparr>
      in (Inr c, this\<lparr>awsRetrieved := True\<rparr>))"

definition EnvAWS_isExpired :: "EnvAWS \<Rightarrow> bool" where
  "EnvAWS_isExpired this = (\<not> awsRetrieved this)"

text \<open>The minio provider through the interface; its world is its own object.\<close>

definition EnvMinio_provider :: "environment \<Rightarrow> (EnvMinio, 'e outcome) IProvider" where
  "EnvMinio_provider env =
     \<lparr>retrieve = EnvMinio_retrieve env, isExpired = EnvMinio_isExpired\<rparr>"

section \<open>Expiry\<close>

text \<open>
  Instants and durations are JavaScript numbers holding milliseconds since the epoch;
  they are integers here. \<^verbatim>\<open>Date.now()\<close> is the parameter \<open>now\<close>.
\<close>

record Expiry =
  expiration :: int

definition Expiry_new :: "int option \<Rightarrow> int \<Rightarrow> Expiry" where
  "Expiry_new expirationArg now =
     \<lparr>expiration = (case expirationArg of None \<Rightarrow> now | Some t \<Rightarrow> t)\<rparr>"

definition setExpiration :: "Expiry \<Rightarrow> int \<Rightarrow> int \<Rightarrow> Expiry" where
  "setExpiration this expirationArg window =
     this\<lparr>expiration := (if window > 0 then expirationArg - window else expirationArg)\<rparr>"

definition Expiry_isExpired :: "Expiry \<Rightarrow> int \<Rightarrow> bool" where
  "Expiry_isExpired this now = (now > expiration this)"

section \<open>Credentials, the cache\<close>

text \<open>
  \<^verbatim>\<open>creds?: Promise<ICredentials>\<close> is the promise last returned by the provider, or
  \<^verbatim>\<open>undefined\<close> (\<open>None\<close>) before the first retrieval. The cache never looks at how the
  promise settles: \<open>get\<close> stores it and hands it out.
\<close>

record ('w, 'r) Credentials =
  provider :: "('w, 'r) IProvider"
  creds :: "'r option"
  forceRefresh :: bool

text \<open>\<^verbatim>\<open>constructor(public readonly provider: IProvider, public forceRefresh = true)\<close>\<close>

definition Credentials_new ::
  "('w, 'r) IProvider \<Rightarrow> bool option \<Rightarrow> ('w, 'r) Credentials" where
  "Credentials_new providerArg forceRefreshArg =
     \<lparr>provider = providerArg, creds = None,
      forceRefresh = (case forceRefreshArg of None \<Rightarrow> True | Some b \<Rightarrow> b)\<rparr>"

definition Credentials_isExpired :: "('w, 'r) Credentials \<Rightarrow> 'w \<Rightarrow> bool" where
  "Credentials_isExpired this w = (forceRefresh this \<or> isExpired (provider this) w)"

text \<open>\<open>get\<close> returns the promise it hands out (\<^verbatim>\<open>this.creds!\<close>, which is \<^verbatim>\<open>undefined\<close> when
  nothing was ever stored), the cache object and the world as it leaves them.\<close>

definition Credentials_get ::
  "('w, 'r) Credentials \<Rightarrow> 'w \<Rightarrow> 'r option \<times> ('w, 'r) Credentials \<times> 'w" where
  "Credentials_get this w =
     (if Credentials_isExpired this w
      then (let (p, w') = retrieve (provider this) w;
                this' = this\<lparr>creds := Some p\<rparr>;
                this'' = this'\<lparr>forceRefresh := False\<rparr>
            in (creds this'', this'', w'))
      else (creds this, this, w))"

definition Credentials_expire :: "('w, 'r) Credentials \<Rightarrow> ('w, 'r) Credentials" where
  "Credentials_expire this = this\<lparr>forceRefresh := True\<rparr>"

section \<open>ChainCredentials\<close>

text \<open>
  \<^verbatim>\<open>protected curr?: IProvider\<close> and \<^verbatim>\<open>public readonly providers: IProvider[]\<close>.
  The constructor leaves \<open>curr\<close> unset.
\<close>

record ('w, 'e) ChainCredentials =
  providers :: "('w, 'e outcome) IProvider list"
  curr :: "('w, 'e outcome) IProvider option"

definition ChainCredentials_new ::
  "('w, 'e outcome) IProvider list \<Rightarrow> ('w, 'e) ChainCredentials" where
  "ChainCredentials_new providersArg = \<lparr>providers = providersArg, curr = None\<rparr>"

text \<open>
  \<^verbatim>\<open>_retrieve(index)\<close>. The callback given to \<^verbatim>\<open>then\<close> runs when the provider's
  promise resolves; a rejection skips the callback and is the rejection of the promise
  that \<^verbatim>\<open>then\<close> returns. The declared type of the resolved value is \<open>ICredentials\<close>, an
  object, so \<^verbatim>\<open>!cred\<close> is false and the test is the one on the two keys. The result is
  the outcome of the returned promise, the world after the last provider called, and
  the indices of the providers whose \<open>retrieve\<close> was called, in the order of the calls.
  No statement of the method assigns \<open>curr\<close>, so the object is not part of the result.
\<close>

function Chain_retrieve_from ::
  "('w, 'e) ChainCredentials \<Rightarrow> nat \<Rightarrow> 'w \<Rightarrow> 'e outcome \<times> 'w \<times> nat list" where
  "Chain_retrieve_from this index w =
     (if index \<ge> length (providers this) then (Inr AnonymousCredentials, w, [])
      else (let p = providers this ! index;
                (r, w') = retrieve p w
            in case r of
                 Inl e \<Rightarrow> (Inl e, w', [index])
               | Inr c \<Rightarrow>
                   if accessKey c = '''' \<and> secretKey c = ''''
                   then (let (r2, w2, calls) = Chain_retrieve_from this (index + 1) w'
                         in (r2, w2, index # calls))
                   else (Inr c, w', [index])))"
  by pat_completeness auto
termination
  by (relation "measure (\<lambda>(this, index, w). length (providers this) - index)") auto

declare Chain_retrieve_from.simps [simp del]

text \<open>\<^verbatim>\<open>retrieve() { return this._retrieve(); }\<close>, the index defaulting to 0. The chain
  object is returned as the call leaves it.\<close>

definition Chain_retrieve ::
  "('w, 'e) ChainCredentials \<Rightarrow> 'w \<Rightarrow> 'e outcome \<times> ('w, 'e) ChainCredentials \<times> 'w" where
  "Chain_retrieve this w =
     (let (r, w', calls) = Chain_retrieve_from this 0 w in (r, this, w'))"

definition Chain_isExpired :: "('w, 'e) ChainCredentials \<Rightarrow> 'w \<Rightarrow> bool" where
  "Chain_isExpired this w =
     (case curr this of None \<Rightarrow> True | Some p \<Rightarrow> isExpired p w)"

section \<open>IAMCredentials, the metadata-service provider\<close>

text \<open>
  The shape of the credential document. \<^verbatim>\<open>JSON.parse\<close>, \<^verbatim>\<open>http.get\<close> behind \<^verbatim>\<open>httpGet\<close>,
  \<^verbatim>\<open>path.join\<close> and \<^verbatim>\<open>new Date(s).getTime()\<close> belong to the platform and are parameters
  of the functions below: \<open>httpGet\<close> maps a URL to the outcome of its promise, \<open>parse\<close>
  a body to the document or to the error thrown, \<open>join\<close> a list of path segments to a
  path, \<open>getTime\<close> a date string to milliseconds. A promise of these functions is its
  outcome; it rejects with a string literal of the source (\<open>Reason\<close>) or with an error
  of the platform (\<open>Thrown\<close>).
\<close>

datatype 'x rejection = Reason string | Thrown 'x

record IEc2RoleCredRespBody =
  Expiration :: string
  AccessKeyID :: string
  SecretAccessKey :: string
  Token :: string
  Code :: string
  Message :: string
  LastUpdated :: string
  Type :: string

definition DefaultExpiryWindow :: int where
  "DefaultExpiryWindow = 1000 * 10"

definition defaultIAMRoleEndpoint :: string where
  "defaultIAMRoleEndpoint = ''http://169.254.169.254''"

definition defaultECSRoleEndpoint :: string where
  "defaultECSRoleEndpoint = ''http://169.254.170.2''"

definition defaultIAMSecurityCredsPath :: string where
  "defaultIAMSecurityCredsPath = ''/latest/meta-data/iam/security-credentials''"

record IAMCredentials =
  endpoint :: string
  expiry :: Expiry

text \<open>\<^verbatim>\<open>constructor(public readonly endpoint: string, public readonly expiry = new Expiry())\<close>\<close>

definition IAMCredentials_new :: "string \<Rightarrow> Expiry option \<Rightarrow> int \<Rightarrow> IAMCredentials" where
  "IAMCredentials_new endpointArg expiryArg now =
     \<lparr>endpoint = endpointArg,
      expiry = (case expiryArg of None \<Rightarrow> Expiry_new None now | Some x \<Rightarrow> x)\<rparr>"

text \<open>A value spliced into a template literal: \<^verbatim>\<open>undefined\<close> prints as the word.\<close>

definition templateValue :: "string option \<Rightarrow> string" where
  "templateValue v = (case v of None \<Rightarrow> ''undefined'' | Some s \<Rightarrow> s)"

text \<open>
  \<^verbatim>\<open>getEndpoint(endpoint = "")\<close> returns the object \<^verbatim>\<open>{ endpoint, isEcsTask }\<close>, a pair
  here. The destructuring of \<^verbatim>\<open>process.env\<close> gives \<open>ecsURI\<close> no default, so an unset
  variable is \<^verbatim>\<open>undefined\<close>, and \<^verbatim>\<open>undefined !== ""\<close> holds.
\<close>

definition getEndpoint :: "environment \<Rightarrow> string option \<Rightarrow> string \<times> bool" where
  "getEndpoint env endpointArg =
     (let endpointV = withDefault endpointArg '''';
          ecsURI = env ''AWS_CONTAINER_CREDENTIALS_RELATIVE_URI'';
          isEcsTask = (ecsURI \<noteq> Some '''')
      in if endpointV \<noteq> '''' then (endpointV, isEcsTask)
         else if isEcsTask then (defaultECSRoleEndpoint @ templateValue ecsURI, isEcsTask)
         else (defaultIAMRoleEndpoint, False))"

definition listRoleNames ::
  "(string \<Rightarrow> 'x rejection + string) \<Rightarrow> string \<Rightarrow> 'x rejection + string" where
  "listRoleNames httpGet url =
     (case httpGet url of
        Inl e \<Rightarrow> Inl e
      | Inr body \<Rightarrow>
          if length body > 0 then Inr body
          else Inl (Reason ''No IAM roles attached to this EC2 service''))"

definition httpGetJSON ::
  "(string \<Rightarrow> 'x rejection + string) \<Rightarrow> (string \<Rightarrow> 'x + IEc2RoleCredRespBody) \<Rightarrow>
   string \<Rightarrow> 'x rejection + IEc2RoleCredRespBody" where
  "httpGetJSON httpGet parse url =
     (case httpGet url of
        Inl e \<Rightarrow> Inl e
      | Inr body \<Rightarrow> (case parse body of Inl err \<Rightarrow> Inl (Thrown err) | Inr doc \<Rightarrow> Inr doc))"

definition getEcsTaskCredentials ::
  "(string \<Rightarrow> 'x rejection + string) \<Rightarrow> (string \<Rightarrow> 'x + IEc2RoleCredRespBody) \<Rightarrow>
   string \<Rightarrow> 'x rejection + IEc2RoleCredRespBody" where
  "getEcsTaskCredentials httpGet parse endpointArg = httpGetJSON httpGet parse endpointArg"

definition getCredentials ::
  "(string \<Rightarrow> 'x rejection + string) \<Rightarrow> (string \<Rightarrow> 'x + IEc2RoleCredRespBody) \<Rightarrow>
   (string list \<Rightarrow> string) \<Rightarrow> string \<Rightarrow> 'x rejection + IEc2RoleCredRespBody" where
  "getCredentials httpGet parse join endpointArg =
     (case listRoleNames httpGet (join [endpointArg, defaultIAMSecurityCredsPath]) of
        Inl e \<Rightarrow> Inl e
      | Inr rolename \<Rightarrow>
          getEcsTaskCredentials httpGet parse
            (join [endpointArg, defaultIAMSecurityCredsPath, rolename]))"

text \<open>The callback that \<open>retrieve\<close> gives to \<^verbatim>\<open>roleCreds.then\<close>: it sets the expiry of the
  provider and returns an object literal with three fields.\<close>

definition IAMCredentials_onRoleCreds ::
  "(string \<Rightarrow> int) \<Rightarrow> IAMCredentials \<Rightarrow> IEc2RoleCredRespBody \<Rightarrow> CredKeys \<times> IAMCredentials" where
  "IAMCredentials_onRoleCreds getTime this c =
     (let this' = this\<lparr>expiry :=
                   setExpiration (expiry this) (getTime (Expiration c)) DefaultExpiryWindow\<rparr>
      in (\<lparr>accessKey = AccessKeyID c, secretKey = SecretAccessKey c,
           sessionToken = Some (Token c)\<rparr>, this'))"

text \<open>
  \<open>retrieve\<close> has no \<^verbatim>\<open>return\<close> statement: the promise that \<^verbatim>\<open>roleCreds.then(...)\<close>
  makes is dropped (\<open>dropped\<close> below) and the caller receives \<^verbatim>\<open>undefined\<close>, which is
  \<open>None\<close>. The second component is the provider once \<open>roleCreds\<close> has settled.
\<close>

definition IAMCredentials_retrieve ::
  "environment \<Rightarrow> (string \<Rightarrow> 'x rejection + string) \<Rightarrow> (string \<Rightarrow> 'x + IEc2RoleCredRespBody) \<Rightarrow>
   (string list \<Rightarrow> string) \<Rightarrow> (string \<Rightarrow> int) \<Rightarrow> IAMCredentials \<Rightarrow>
   ('x rejection + CredKeys) option \<times> IAMCredentials" where
  "IAMCredentials_retrieve env httpGet parse join getTime this =
     (let (endpointV, isEcsTask) = getEndpoint env (Some (endpoint this));
          roleCreds = (if isEcsTask then getEcsTaskCredentials httpGet parse endpointV
                       else getCredentials httpGet parse join endpointV);
          (dropped, this') =
             (case roleCreds of
                Inl e \<Rightarrow> (Inl e, this)
              | Inr c \<Rightarrow> (let (v, t) = IAMCredentials_onRoleCreds getTime this c
                          in (Inr v, t)))
      in (None, this'))"

section \<open>Notions used to state the properties\<close>

text \<open>A promise that resolves with a credential whose two keys are both empty: the
  one outcome after which the chain goes on to the next provider.\<close>

definition emptySuccess :: "'e outcome \<Rightarrow> bool" where
  "emptySuccess r = (case r of Inl e \<Rightarrow> False | Inr c \<Rightarrow> accessKey c = '''' \<and> secretKey c = '''')"

text \<open>\<open>world_at ps w k\<close> is the world in which the provider at index \<open>k\<close> is called when the
  providers before it have been called one after the other, starting in \<open>w\<close>.\<close>

fun world_at :: "('w, 'r) IProvider list \<Rightarrow> 'w \<Rightarrow> nat \<Rightarrow> 'w" where
  "world_at ps w 0 = w"
| "world_at [] w (Suc k) = w"
| "world_at (p # ps) w (Suc k) = world_at ps (snd (retrieve p w)) k"

text \<open>\<open>outcome_at ps w k\<close> is what the provider at index \<open>k\<close> answers in that world.\<close>

definition outcome_at :: "('w, 'r) IProvider list \<Rightarrow> 'w \<Rightarrow> nat \<Rightarrow> 'r" where
  "outcome_at ps w k = fst (retrieve (ps ! k) (world_at ps w k))"

text \<open>
  The recursion of \<^verbatim>\<open>_retrieve\<close> as a loop over the providers that are left, \<open>index\<close>
  being the index of the first of them. It is shown below to compute what
  \<open>Chain_retrieve_from\<close> computes, and the properties of the chain are proved on it by
  induction on the list.
\<close>

fun chain_run ::
  "('w, 'e outcome) IProvider list \<Rightarrow> nat \<Rightarrow> 'w \<Rightarrow> 'e outcome \<times> 'w \<times> nat list" where
  "chain_run [] index w = (Inr AnonymousCredentials, w, [])"
| "chain_run (p # ps) index w =
     (let (r, w') = retrieve p w
      in case r of
           Inl e \<Rightarrow> (Inl e, w', [index])
         | Inr c \<Rightarrow>
             if accessKey c = '''' \<and> secretKey c = ''''
             then (let (r2, w2, calls) = chain_run ps (index + 1) w'
                   in (r2, w2, index # calls))
             else (Inr c, w', [index]))"

text \<open>
  A provider for examples. Its world is the number of \<open>retrieve\<close> calls made so far;
  the call number \<open>n\<close> (from 0) returns the promise \<open>answers n\<close>, and \<open>isExpired\<close> is
  \<open>expired n\<close> after \<open>n\<close> calls.
\<close>

definition scriptedProvider :: "(nat \<Rightarrow> 'r) \<Rightarrow> (nat \<Rightarrow> bool) \<Rightarrow> (nat, 'r) IProvider" where
  "scriptedProvider answers expired =
     \<lparr>retrieve = (\<lambda>n. (answers n, Suc n)), isExpired = expired\<rparr>"

definition validCred :: ICredentials where
  "validCred = \<lparr>accessKey = ''AK'', secretKey = ''SK'', sessionToken = None, signerType = V4\<rparr>"

text \<open>A provider whose first retrieval resolves and whose later ones reject, and which
  never reports expired: a remote source that becomes unreachable.\<close>

definition flakyProvider :: "(nat, string outcome) IProvider" where
  "flakyProvider =
     scriptedProvider (\<lambda>n. if n = 0 then Inr validCred else Inl ''ECONNREFUSED'') (\<lambda>n. False)"

text \<open>A provider whose retrievals all reject.\<close>

definition failingProvider :: "(nat, string outcome) IProvider" where
  "failingProvider = scriptedProvider (\<lambda>n. Inl ''ECONNREFUSED'') (\<lambda>n. True)"

text \<open>A provider that goes on reporting expired while its retrievals are pending, as one
  does that records its expiry only when the retrieval settles. Its promises are told
  apart by their number: call \<open>n\<close> returns promise \<open>n\<close>.\<close>

definition pendingProvider :: "(nat, nat) IProvider" where
  "pendingProvider = scriptedProvider (\<lambda>n. n) (\<lambda>n. True)"

text \<open>The three providers \<^verbatim>\<open>[P1(empty), P2(valid), P3]\<close> of a chain, two of them static.\<close>

definition emptyStatic :: "(nat, string outcome) IProvider" where
  "emptyStatic = StaticCred_provider (StaticCred_new '''' '''' None None)"

definition validStatic :: "(nat, string outcome) IProvider" where
  "validStatic = StaticCred_provider (StaticCred_new ''AK'' ''SK'' None None)"

text \<open>A chain of an empty static provider and a minio provider in an environment
  without variables; the world is the minio provider's object.\<close>

definition exhaustedChain :: "(EnvMinio, string) ChainCredentials" where
  "exhaustedChain =
     ChainCredentials_new
       [StaticCred_provider (StaticCred_new '''' '''' None None), EnvMinio_provider Map.empty]"

text \<open>A task-metadata service that answers every request with one credential document,
  and the environment of an ECS task.\<close>

definition exampleDoc :: IEc2RoleCredRespBody where
  "exampleDoc =
     \<lparr>Expiration = ''2030-01-01T00:00:00Z'', AccessKeyID = ''X'', SecretAccessKey = ''Y'',
      Token = ''Z'', Code = ''Success'', Message = '''', LastUpdated = '''', Type = ''''\<rparr>"

definition exampleHttpGet :: "string \<Rightarrow> unit rejection + string" where
  "exampleHttpGet url = Inr ''{...}''"

definition exampleParse :: "string \<Rightarrow> unit + IEc2RoleCredRespBody" where
  "exampleParse body = Inr exampleDoc"

definition exampleGetTime :: "string \<Rightarrow> int" where
  "exampleGetTime s = (if s = ''2030-01-01T00:00:00Z'' then 1893456000000 else 0)"

definition ecsEnv :: environment where
  "ecsEnv = Map.empty(''AWS_CONTAINER_CREDENTIALS_RELATIVE_URI'' \<mapsto> ''/v2/credentials/r'')"

section \<open>Expiry: the safety window\<close>

text \<open>
  Claim C6, as the source has it. An expiry tracker set with the expiration instant \<open>T\<close>
  and the window 10000 reports expired exactly at the instants \<open>now\<close> strictly after
  \<open>T - 10000\<close>: the test of the source is \<^verbatim>\<open>Date.now() > this.expiration\<close>. At the instant
  \<open>T - 10000\<close> itself the tracker reports not expired.
\<close>

theorem C6_expired_iff_after_window:
  "Expiry_isExpired (setExpiration e T 10000) now \<longleftrightarrow> now > T - 10000"
  by (simp add: Expiry_isExpired_def setExpiration_def)

theorem C6_expired_iff_after_window_witness:
  "Expiry_isExpired (setExpiration (Expiry_new None 0) 20000 10000) 10001
   \<and> \<not> Expiry_isExpired (setExpiration (Expiry_new None 0) 20000 10000) 10000
   \<and> \<not> Expiry_isExpired (setExpiration (Expiry_new None 0) 20000 10000) 9999"
  using C6_expired_iff_after_window [of "Expiry_new None 0" 20000 10001]
        C6_expired_iff_after_window [of "Expiry_new None 0" 20000 10000]
        C6_expired_iff_after_window [of "Expiry_new None 0" 20000 9999]
  by simp

text \<open>The claim as it is written counts the boundary as expired. With \<open>T = 20000\<close> and
  \<open>now = 10000 = T - 10000\<close> the tracker reports not expired.\<close>

theorem C6_boundary_counterexample:
  "(10000::int) \<ge> 20000 - 10000
   \<and> \<not> Expiry_isExpired (setExpiration (Expiry_new None 0) 20000 10000) 10000"
  by (simp add: Expiry_isExpired_def setExpiration_def Expiry_new_def)

section \<open>Environment providers: the signature kind\<close>

text \<open>
  Claim C10. The minio provider resolves to a credential whose signature kind is
  Anonymous exactly when \<open>MINIO_ACCESS_KEY\<close> or \<open>MINIO_SECRET_KEY\<close> is unset or empty.
  The generic cloud provider resolves to a credential whose signature kind is
  Anonymous when the resolved access key is empty and V4 otherwise, whatever the
  secret key is.
\<close>

theorem C10_env_signature_kinds:
  "(\<exists>c. fst (EnvMinio_retrieve env m) = Inr c \<and>
        (signerType c = Anonymous \<longleftrightarrow>
           env ''MINIO_ACCESS_KEY'' = None \<or> env ''MINIO_ACCESS_KEY'' = Some '''' \<or>
           env ''MINIO_SECRET_KEY'' = None \<or> env ''MINIO_SECRET_KEY'' = Some ''''))
   \<and> (\<exists>c. fst (EnvAWS_retrieve env a) = Inr c \<and>
        signerType c = (if accessKey c = '''' then Anonymous else V4))"
  by (auto simp: EnvMinio_retrieve_def EnvAWS_retrieve_def withDefault_def Let_def
           split: option.splits)

text \<open>With only the two access keys set, the minio provider is anonymous for want of a
  secret key, and the generic provider signs with V4 although its secret key is empty.\<close>

theorem C10_env_signature_kinds_witness:
  "fst (EnvMinio_retrieve
          (Map.empty(''MINIO_ACCESS_KEY'' \<mapsto> ''minio'', ''AWS_ACCESS_KEY_ID'' \<mapsto> ''AKIA1''))
          EnvMinio_new) =
     (Inr \<lparr>accessKey = ''minio'', secretKey = '''', sessionToken = None,
           signerType = Anonymous\<rparr> :: string outcome)
   \<and> fst (EnvAWS_retrieve
          (Map.empty(''MINIO_ACCESS_KEY'' \<mapsto> ''minio'', ''AWS_ACCESS_KEY_ID'' \<mapsto> ''AKIA1''))
          EnvAWS_new) =
     (Inr \<lparr>accessKey = ''AKIA1'', secretKey = '''', sessionToken = None,
           signerType = V4\<rparr> :: string outcome)"
  using C10_env_signature_kinds
    [of "Map.empty(''MINIO_ACCESS_KEY'' \<mapsto> ''minio'', ''AWS_ACCESS_KEY_ID'' \<mapsto> ''AKIA1'')"
        EnvMinio_new EnvAWS_new]
  by (simp add: EnvMinio_retrieve_def EnvAWS_retrieve_def withDefault_def Let_def)

section \<open>The metadata-service provider\<close>

text \<open>
  Claim C4, evaluated where the source departs from it. For a provider configured
  without an endpoint and an environment in which \<open>AWS_CONTAINER_CREDENTIALS_RELATIVE_URI\<close>
  is not set, endpoint resolution answers the task-metadata base followed by the word
  \<open>undefined\<close>, in ECS-task mode, and not the default instance-metadata base in
  EC2-instance mode: the variable is read without a default, and \<^verbatim>\<open>undefined !== ""\<close>.
\<close>

theorem C4_unset_uri_resolves_to_ecs:
  "getEndpoint Map.empty (Some '''') = (''http://169.254.170.2undefined'', True)"
  by (simp add: getEndpoint_def withDefault_def templateValue_def defaultECSRoleEndpoint_def)

text \<open>The other two cases of the claim hold: a variable set to the empty string gives
  the instance-metadata base, a variable set to a relative URI the task-metadata base
  followed by it.\<close>

lemma getEndpoint_set_variable:
  "env ''AWS_CONTAINER_CREDENTIALS_RELATIVE_URI'' = Some u \<Longrightarrow>
   getEndpoint env (Some '''') =
     (if u = '''' then (defaultIAMRoleEndpoint, False) else (defaultECSRoleEndpoint @ u, True))"
  by (simp add: getEndpoint_def withDefault_def templateValue_def)

text \<open>
  Claim C2, evaluated where the source departs from it. The task-metadata service
  answers with the document \<open>exampleDoc\<close>; \<open>retrieve\<close> sets the expiry of the provider to
  ten seconds before the document's expiration, and returns \<^verbatim>\<open>undefined\<close> to its caller
  instead of the credential value: the method has no \<^verbatim>\<open>return\<close>.
\<close>

theorem C2_retrieve_returns_undefined:
  "IAMCredentials_retrieve ecsEnv exampleHttpGet exampleParse concat exampleGetTime
      (IAMCredentials_new '''' None 0) =
     (None, \<lparr>endpoint = '''', expiry = \<lparr>expiration = 1893455990000\<rparr>\<rparr>)"
  by (simp add: IAMCredentials_retrieve_def getEndpoint_def withDefault_def ecsEnv_def
        getEcsTaskCredentials_def httpGetJSON_def exampleHttpGet_def exampleParse_def
        IAMCredentials_onRoleCreds_def setExpiration_def DefaultExpiryWindow_def
        exampleGetTime_def exampleDoc_def IAMCredentials_new_def Expiry_new_def)

text \<open>For every endpoint, environment and service, the caller receives \<^verbatim>\<open>undefined\<close>; the
  value that the callback builds has no signature kind.\<close>

lemma IAMCredentials_retrieve_undefined:
  "fst (IAMCredentials_retrieve env httpGet parse join getTime this) = None"
  by (simp add: IAMCredentials_retrieve_def Let_def split: prod.splits)

lemma IAMCredentials_onRoleCreds_value:
  "IAMCredentials_onRoleCreds getTime this exampleDoc =
     (\<lparr>accessKey = ''X'', secretKey = ''Y'', sessionToken = Some ''Z''\<rparr>,
      this\<lparr>expiry := setExpiration (expiry this) (getTime ''2030-01-01T00:00:00Z'') 10000\<rparr>)"
  by (simp add: IAMCredentials_onRoleCreds_def exampleDoc_def DefaultExpiryWindow_def)

section \<open>The credential cache\<close>

text \<open>
  Claim C9. A cache constructed with the default arguments starts with the
  force-refresh flag set, and its first \<open>get\<close> calls \<open>retrieve\<close> of the wrapped provider,
  whatever that provider's \<open>isExpired\<close> says: it hands out and stores the promise that
  \<open>retrieve\<close> returned, clears the flag, and leaves the world as \<open>retrieve\<close> left it.
\<close>

theorem C9_first_get_retrieves:
  "forceRefresh (Credentials_new p None)
   \<and> Credentials_get (Credentials_new p None) w =
       (Some (fst (retrieve p w)),
        \<lparr>provider = p, creds = Some (fst (retrieve p w)), forceRefresh = False\<rparr>,
        snd (retrieve p w))"
  by (simp add: Credentials_get_def Credentials_new_def Credentials_isExpired_def
        split: prod.splits)

text \<open>A provider that reports not expired from the start is called all the same: the
  count of its calls goes from 0 to 1.\<close>

theorem C9_first_get_retrieves_witness:
  "\<not> isExpired flakyProvider 0
   \<and> Credentials_get (Credentials_new flakyProvider None) 0 =
       (Some (Inr validCred),
        \<lparr>provider = flakyProvider, creds = Some (Inr validCred), forceRefresh = False\<rparr>,
        1)"
  using C9_first_get_retrieves [of flakyProvider 0]
  by (simp add: flakyProvider_def scriptedProvider_def)

text \<open>
  Claim C1, as the source has it. When the cache is expired and the retrieval that \<open>get\<close>
  starts fails, \<open>get\<close> hands out the failed promise, stores it in place of what was
  cached before, and clears the force-refresh flag. The next \<open>get\<close>, in whatever world
  \<open>w2\<close> it is issued, retries the retrieval if the provider reports expired; if it does
  not, the next \<open>get\<close> hands out the stored failure again.
\<close>

theorem C1_failed_refresh_is_stored:
  assumes "Credentials_isExpired c w"
    and "retrieve (provider c) w = (Inl e, w')"
  shows "Credentials_get c w =
           (Some (Inl e), c\<lparr>creds := Some (Inl e), forceRefresh := False\<rparr>, w')
     \<and> Credentials_get (c\<lparr>creds := Some (Inl e), forceRefresh := False\<rparr>) w2 =
           (if isExpired (provider c) w2
            then (Some (fst (retrieve (provider c) w2)),
                  c\<lparr>creds := Some (fst (retrieve (provider c) w2)), forceRefresh := False\<rparr>,
                  snd (retrieve (provider c) w2))
            else (Some (Inl e), c\<lparr>creds := Some (Inl e), forceRefresh := False\<rparr>, w2))"
  using assms
  by (simp add: Credentials_get_def Credentials_isExpired_def split: prod.splits)

text \<open>The cache holds \<open>validCred\<close> and was told to expire; the provider has become
  unreachable and does not report expired.\<close>

theorem C1_failed_refresh_is_stored_witness:
  "Credentials_isExpired
     \<lparr>provider = flakyProvider, creds = Some (Inr validCred), forceRefresh = True\<rparr> 1
   \<and> retrieve flakyProvider 1 = (Inl ''ECONNREFUSED'', 2)
   \<and> Credentials_get
       \<lparr>provider = flakyProvider, creds = Some (Inr validCred), forceRefresh = True\<rparr> 1 =
       (Some (Inl ''ECONNREFUSED''),
        \<lparr>provider = flakyProvider, creds = Some (Inl ''ECONNREFUSED''), forceRefresh = False\<rparr>,
        2)
   \<and> Credentials_get
       \<lparr>provider = flakyProvider, creds = Some (Inl ''ECONNREFUSED''), forceRefresh = False\<rparr> 2 =
       (Some (Inl ''ECONNREFUSED''),
        \<lparr>provider = flakyProvider, creds = Some (Inl ''ECONNREFUSED''), forceRefresh = False\<rparr>,
        2)"
proof -
  have h1: "Credentials_isExpired
     \<lparr>provider = flakyProvider, creds = Some (Inr validCred), forceRefresh = True\<rparr> 1"
    by (simp add: Credentials_isExpired_def)
  have h2: "retrieve (provider
     \<lparr>provider = flakyProvider, creds = Some (Inr validCred), forceRefresh = True\<rparr>) 1 =
       (Inl ''ECONNREFUSED'', 2)"
    by (simp add: flakyProvider_def scriptedProvider_def)
  have ne: "\<not> isExpired flakyProvider 2"
    by (simp add: flakyProvider_def scriptedProvider_def)
  show ?thesis
    using C1_failed_refresh_is_stored [OF h1 h2, of 2] h1 h2 ne by simp
qed

text \<open>
  The claim as it is written: the value cached before the failed refresh is what a
  later \<open>get\<close> returns or re-checks. The first \<open>get\<close> caches \<open>validCred\<close>; after
  \<open>expire\<close>, the second \<open>get\<close> fails and the cache holds the failure instead of
  \<open>validCred\<close>; the third \<open>get\<close> returns that failure without calling the provider.
\<close>

theorem C1_prior_value_lost_counterexample:
  "Credentials_get (Credentials_new flakyProvider None) 0 =
     (Some (Inr validCred),
      \<lparr>provider = flakyProvider, creds = Some (Inr validCred), forceRefresh = False\<rparr>, 1)
   \<and> Credentials_get
       (Credentials_expire
          \<lparr>provider = flakyProvider, creds = Some (Inr validCred), forceRefresh = False\<rparr>) 1 =
     (Some (Inl ''ECONNREFUSED''),
      \<lparr>provider = flakyProvider, creds = Some (Inl ''ECONNREFUSED''), forceRefresh = False\<rparr>, 2)
   \<and> Credentials_get
       \<lparr>provider = flakyProvider, creds = Some (Inl ''ECONNREFUSED''), forceRefresh = False\<rparr> 2 =
     (Some (Inl ''ECONNREFUSED''),
      \<lparr>provider = flakyProvider, creds = Some (Inl ''ECONNREFUSED''), forceRefresh = False\<rparr>, 2)
   \<and> Some (Inl ''ECONNREFUSED'') \<noteq> Some (Inr validCred :: string outcome)"
  by (simp add: Credentials_get_def Credentials_new_def Credentials_isExpired_def
        Credentials_expire_def flakyProvider_def scriptedProvider_def)

text \<open>
  Claim C5, as the source has it. A second \<open>get\<close> is issued while the refresh started
  by the first is pending, that is, in the world as the first \<open>get\<close> left it. If the
  provider reports not expired there, the second \<open>get\<close> hands out the promise of the
  first and calls nothing. If the provider still reports expired, the second \<open>get\<close>
  calls \<open>retrieve\<close> again and hands out and stores the new promise.
\<close>

theorem C5_second_get_while_pending:
  assumes "Credentials_isExpired c w"
    and "Credentials_get c w = (r1, c1, w1)"
  shows "r1 = Some (fst (retrieve (provider c) w))
     \<and> (\<not> isExpired (provider c) w1 \<longrightarrow> Credentials_get c1 w1 = (r1, c1, w1))
     \<and> (isExpired (provider c) w1 \<longrightarrow>
          Credentials_get c1 w1 =
            (Some (fst (retrieve (provider c) w1)),
             c1\<lparr>creds := Some (fst (retrieve (provider c) w1))\<rparr>,
             snd (retrieve (provider c) w1)))"
  using assms
  by (auto simp: Credentials_get_def Credentials_isExpired_def split: prod.splits)

text \<open>A static provider never reports expired: both calls hand out the one promise.\<close>

theorem C5_second_get_while_pending_witness:
  "Credentials_isExpired (Credentials_new validStatic None) 0
   \<and> Credentials_get (Credentials_new validStatic None) 0 =
       (Some (Inr validCred),
        \<lparr>provider = validStatic, creds = Some (Inr validCred), forceRefresh = False\<rparr>, 0)
   \<and> \<not> isExpired validStatic 0
   \<and> Credentials_get
       \<lparr>provider = validStatic, creds = Some (Inr validCred), forceRefresh = False\<rparr> 0 =
       (Some (Inr validCred),
        \<lparr>provider = validStatic, creds = Some (Inr validCred), forceRefresh = False\<rparr>, 0)"
proof -
  have h1: "Credentials_isExpired (Credentials_new validStatic None) 0"
    by (simp add: Credentials_isExpired_def Credentials_new_def)
  have h2: "Credentials_get (Credentials_new validStatic None) 0 =
       (Some (Inr validCred),
        \<lparr>provider = validStatic, creds = Some (Inr validCred), forceRefresh = False\<rparr>, 0)"
    by (simp add: Credentials_get_def Credentials_isExpired_def Credentials_new_def
          validStatic_def StaticCred_provider_def StaticCred_retrieve_def StaticCred_new_def
          validCred_def)
  have ne: "\<not> isExpired validStatic 0"
    by (simp add: validStatic_def StaticCred_provider_def StaticCred_isExpired_def)
  have p: "provider (Credentials_new validStatic None) = validStatic"
    by (simp add: Credentials_new_def)
  from C5_second_get_while_pending [OF h1 h2, unfolded p] ne
  have "Credentials_get
       \<lparr>provider = validStatic, creds = Some (Inr validCred), forceRefresh = False\<rparr> 0 =
       (Some (Inr validCred),
        \<lparr>provider = validStatic, creds = Some (Inr validCred), forceRefresh = False\<rparr>, 0)"
    by blast
  with h1 h2 ne show ?thesis by blast
qed

text \<open>
  The claim as it is written: two \<open>get\<close> calls issued while a refresh is pending are
  served by one retrieval. With a provider that still reports expired while its
  retrieval is pending, the first \<open>get\<close> hands out promise 0 and the second, issued
  right after it, hands out promise 1: \<open>retrieve\<close> was called twice and both retrievals
  are in flight.
\<close>

theorem C5_two_retrievals_counterexample:
  "Credentials_get (Credentials_new pendingProvider None) 0 =
     (Some 0, \<lparr>provider = pendingProvider, creds = Some 0, forceRefresh = False\<rparr>, 1)
   \<and> Credentials_get
       \<lparr>provider = pendingProvider, creds = Some 0, forceRefresh = False\<rparr> 1 =
     (Some 1, \<lparr>provider = pendingProvider, creds = Some 1, forceRefresh = False\<rparr>, 2)
   \<and> Some (0::nat) \<noteq> Some 1"
  by (simp add: Credentials_get_def Credentials_new_def Credentials_isExpired_def
        pendingProvider_def scriptedProvider_def)

section \<open>The chain\<close>

subsection \<open>The recursion is the loop\<close>

lemma Chain_retrieve_from_run:
  "Chain_retrieve_from this index w = chain_run (drop index (providers this)) index w"
proof (induction this index w rule: Chain_retrieve_from.induct)
  case (1 this index w)
  show ?case
  proof (cases "index \<ge> length (providers this)")
    case True
    then show ?thesis by (simp add: Chain_retrieve_from.simps)
  next
    case False
    then have d: "drop index (providers this) =
        (providers this ! index) # drop (Suc index) (providers this)"
      by (simp add: Cons_nth_drop_Suc)
    show ?thesis
      using False 1
      apply (subst Chain_retrieve_from.simps)
      apply (simp add: d split: prod.splits sum.splits)
      done
  qed
qed

lemma outcome_at_0: "outcome_at (p # ps) w 0 = fst (retrieve p w)"
  by (simp add: outcome_at_def)

lemma outcome_at_Suc: "outcome_at (p # ps) w (Suc k) = outcome_at ps (snd (retrieve p w)) k"
  by (simp add: outcome_at_def)

text \<open>After an empty success the loop goes on with the next provider.\<close>

lemma chain_run_advance:
  "retrieve p w = (r, w') \<Longrightarrow> emptySuccess r \<Longrightarrow>
   chain_run (p # ps) off w =
     (fst (chain_run ps (Suc off) w'), fst (snd (chain_run ps (Suc off) w')),
      off # snd (snd (chain_run ps (Suc off) w')))"
  by (auto simp: emptySuccess_def split: sum.splits prod.splits)

text \<open>The loop stops at the first provider whose outcome is not an empty success, with
  that outcome, having called the providers up to it and no other.\<close>

lemma chain_run_stops:
  "i < length ps \<Longrightarrow> \<forall>k<i. emptySuccess (outcome_at ps w k) \<Longrightarrow>
   \<not> emptySuccess (outcome_at ps w i) \<Longrightarrow>
   chain_run ps off w = (outcome_at ps w i, world_at ps w (Suc i), [off..<off + Suc i])"
proof (induction ps arbitrary: i w off)
  case Nil
  then show ?case by simp
next
  case (Cons p ps)
  obtain r w' where rw: "retrieve p w = (r, w')" by (cases "retrieve p w")
  show ?case
  proof (cases i)
    case 0
    with Cons.prems(3) have "\<not> emptySuccess r" by (simp add: outcome_at_0 rw)
    then show ?thesis using 0 rw
      by (auto simp: outcome_at_0 emptySuccess_def split: sum.splits)
  next
    case (Suc j)
    from Cons.prems(2) Suc have e0: "emptySuccess r"
      using outcome_at_0 [of p ps w] rw by auto
    have j: "j < length ps" using Cons.prems(1) Suc by simp
    have allj: "\<forall>k<j. emptySuccess (outcome_at ps w' k)"
    proof (intro allI impI)
      fix k assume "k < j"
      then have "Suc k < i" using Suc by simp
      with Cons.prems(2) have "emptySuccess (outcome_at (p # ps) w (Suc k))" by blast
      then show "emptySuccess (outcome_at ps w' k)" by (simp add: outcome_at_Suc rw)
    qed
    have nj: "\<not> emptySuccess (outcome_at ps w' j)"
      using Cons.prems(3) Suc by (simp add: outcome_at_Suc rw)
    have ih: "chain_run ps (Suc off) w' =
        (outcome_at ps w' j, world_at ps w' (Suc j), [Suc off..<Suc off + Suc j])"
      using Cons.IH [OF j allj nj] .
    show ?thesis
      unfolding chain_run_advance [OF rw e0] ih Suc
      by (simp add: outcome_at_Suc rw upt_conv_Cons del: upt_Suc)
  qed
qed

text \<open>When every provider answers with an empty success the loop runs through the
  list.\<close>

lemma chain_run_exhausted:
  "\<forall>k<length ps. emptySuccess (outcome_at ps w k) \<Longrightarrow>
   chain_run ps off w =
     (Inr AnonymousCredentials, world_at ps w (length ps), [off..<off + length ps])"
proof (induction ps arbitrary: w off)
  case Nil
  then show ?case by simp
next
  case (Cons p ps)
  obtain r w' where rw: "retrieve p w = (r, w')" by (cases "retrieve p w")
  from Cons.prems have e0: "emptySuccess r"
    using outcome_at_0 [of p ps w] rw by auto
  have all: "\<forall>k<length ps. emptySuccess (outcome_at ps w' k)"
  proof (intro allI impI)
    fix k assume "k < length ps"
    then have "Suc k < length (p # ps)" by simp
    with Cons.prems have "emptySuccess (outcome_at (p # ps) w (Suc k))" by blast
    then show "emptySuccess (outcome_at ps w' k)" by (simp add: outcome_at_Suc rw)
  qed
  show ?case
    unfolding chain_run_advance [OF rw e0] Cons.IH [OF all, of "Suc off"]
    by (simp add: rw upt_conv_Cons del: upt_Suc)
qed

lemma Chain_retrieve_from_stops:
  assumes "i < length (providers c)"
    and "\<forall>k<i. emptySuccess (outcome_at (providers c) w k)"
    and "\<not> emptySuccess (outcome_at (providers c) w i)"
  shows "Chain_retrieve_from c 0 w =
           (outcome_at (providers c) w i, world_at (providers c) w (Suc i), [0..<Suc i])"
  using chain_run_stops [OF assms, of 0] by (simp add: Chain_retrieve_from_run)

subsection \<open>Failures and fallback\<close>

text \<open>
  Claim C7. Let the providers before index \<open>i\<close> each resolve with empty credentials
  when they are called one after the other, so that the chain reaches the provider at
  \<open>i\<close>. If that provider's retrieval fails with \<open>e\<close>, the first failure of the run, then
  the chain rejects with \<open>e\<close> and has called the providers at 0 to \<open>i\<close> and none after
  \<open>i\<close>. And whatever the provider at \<open>i\<close> answers, the provider at \<open>i + 1\<close> is called only
  if the answer was a success with both keys empty.
\<close>

theorem C7_failure_stops_chain:
  assumes "i < length (providers c)"
    and "\<forall>k<i. emptySuccess (outcome_at (providers c) w k)"
  shows "(outcome_at (providers c) w i = Inl e \<longrightarrow>
            Chain_retrieve_from c 0 w =
              (Inl e, world_at (providers c) w (Suc i), [0..<Suc i])
            \<and> Chain_retrieve c w = (Inl e, c, world_at (providers c) w (Suc i)))
     \<and> (Suc i \<in> set (snd (snd (Chain_retrieve_from c 0 w))) \<longrightarrow>
            emptySuccess (outcome_at (providers c) w i))"
proof (intro conjI impI)
  assume f: "outcome_at (providers c) w i = Inl e"
  then have "\<not> emptySuccess (outcome_at (providers c) w i)"
    by (simp add: emptySuccess_def)
  from Chain_retrieve_from_stops [OF assms this] f
  show r: "Chain_retrieve_from c 0 w =
      (Inl e, world_at (providers c) w (Suc i), [0..<Suc i])"
    by simp
  show "Chain_retrieve c w = (Inl e, c, world_at (providers c) w (Suc i))"
    by (simp add: Chain_retrieve_def r)
next
  assume s: "Suc i \<in> set (snd (snd (Chain_retrieve_from c 0 w)))"
  show "emptySuccess (outcome_at (providers c) w i)"
  proof (rule ccontr)
    assume "\<not> emptySuccess (outcome_at (providers c) w i)"
    from Chain_retrieve_from_stops [OF assms this] s show False by simp
  qed
qed

text \<open>The chain \<^verbatim>\<open>[P1(empty), P2(fails), P3(valid)]\<close>: it rejects with the error of P2
  and calls P1 and P2 only.\<close>

theorem C7_failure_stops_chain_witness:
  "(1::nat) < length (providers (ChainCredentials_new [emptyStatic, failingProvider, validStatic]))
   \<and> emptySuccess (outcome_at
         (providers (ChainCredentials_new [emptyStatic, failingProvider, validStatic])) 0 0)
   \<and> outcome_at (providers (ChainCredentials_new [emptyStatic, failingProvider, validStatic])) 0 1
       = Inl ''ECONNREFUSED''
   \<and> Chain_retrieve_from (ChainCredentials_new [emptyStatic, failingProvider, validStatic]) 0 0
       = (Inl ''ECONNREFUSED'', 1, [0, 1])"
proof -
  let ?c = "ChainCredentials_new [emptyStatic, failingProvider, validStatic]"
  have h1: "1 < length (providers ?c)" by (simp add: ChainCredentials_new_def)
  have o0: "outcome_at (providers ?c) 0 0 = Inr (cred (StaticCred_new '''' '''' None None))"
    by (simp add: ChainCredentials_new_def outcome_at_def emptyStatic_def StaticCred_provider_def
          StaticCred_retrieve_def)
  have h2: "\<forall>k<1. emptySuccess (outcome_at (providers ?c) 0 k)"
    by (simp add: o0 emptySuccess_def StaticCred_new_def)
  have w1: "world_at (providers ?c) 0 1 = 0"
    by (simp add: ChainCredentials_new_def emptyStatic_def StaticCred_provider_def)
  have h3: "outcome_at (providers ?c) 0 1 = Inl ''ECONNREFUSED''"
    by (simp add: outcome_at_def w1) (simp add: ChainCredentials_new_def failingProvider_def scriptedProvider_def)
  have w2: "world_at (providers ?c) 0 (Suc 1) = 1"
    by (simp add: ChainCredentials_new_def emptyStatic_def StaticCred_provider_def failingProvider_def
          scriptedProvider_def)
  have u: "[0..<Suc 1] = [0, 1::nat]" by (simp add: upt_conv_Cons)
  from C7_failure_stops_chain [OF h1 h2, of "''ECONNREFUSED''"] h3
  have "Chain_retrieve_from ?c 0 0 = (Inl ''ECONNREFUSED'', world_at (providers ?c) 0 (Suc 1), [0..<Suc 1])"
    by blast
  then have "Chain_retrieve_from ?c 0 0 = (Inl ''ECONNREFUSED'', 1, [0, 1])"
    by (simp only: w2 u)
  with h1 h2 h3 show ?thesis by simp
qed

text \<open>
  Claim C8. When every provider of the chain, called one after the other, resolves
  with empty credentials, and so for the empty list of providers, \<open>retrieve\<close> resolves
  with the anonymous credential constant, having called every provider once.
\<close>

theorem C8_exhausted_chain_is_anonymous:
  assumes "\<forall>k<length (providers c). emptySuccess (outcome_at (providers c) w k)"
  shows "Chain_retrieve_from c 0 w =
           (Inr \<lparr>accessKey = '''', secretKey = '''', sessionToken = None,
                 signerType = Anonymous\<rparr>,
            world_at (providers c) w (length (providers c)), [0..<length (providers c)])
     \<and> Chain_retrieve c w =
           (Inr AnonymousCredentials, c, world_at (providers c) w (length (providers c)))"
  using chain_run_exhausted [OF assms, of 0]
  by (simp add: Chain_retrieve_from_run Chain_retrieve_def AnonymousCredentials_def)

text \<open>Both providers of \<open>exhaustedChain\<close> resolve with empty keys, and the chain resolves
  with the anonymous credential after calling both.\<close>

theorem C8_exhausted_chain_is_anonymous_witness:
  "length (providers exhaustedChain) = 2
   \<and> emptySuccess (outcome_at (providers exhaustedChain) EnvMinio_new 0)
   \<and> emptySuccess (outcome_at (providers exhaustedChain) EnvMinio_new 1)
   \<and> Chain_retrieve_from exhaustedChain 0 EnvMinio_new =
       (Inr \<lparr>accessKey = '''', secretKey = '''', sessionToken = None,
             signerType = Anonymous\<rparr>,
        \<lparr>minioRetrieved = True\<rparr>, [0, 1])"
proof -
  let ?c = "exhaustedChain"
  have o0: "emptySuccess (outcome_at (providers ?c) EnvMinio_new 0)"
    by (simp add: exhaustedChain_def ChainCredentials_new_def outcome_at_def emptySuccess_def
          StaticCred_provider_def StaticCred_retrieve_def StaticCred_new_def)
  have o1: "emptySuccess (outcome_at (providers ?c) EnvMinio_new (Suc 0))"
    by (simp add: exhaustedChain_def ChainCredentials_new_def outcome_at_def emptySuccess_def
          StaticCred_provider_def EnvMinio_provider_def EnvMinio_retrieve_def withDefault_def)
  have h: "\<forall>k<length (providers ?c). emptySuccess (outcome_at (providers ?c) EnvMinio_new k)"
  proof (intro allI impI)
    fix k assume "k < length (providers ?c)"
    then have "k = 0 \<or> k = Suc 0"
      by (auto simp: exhaustedChain_def ChainCredentials_new_def)
    then show "emptySuccess (outcome_at (providers ?c) EnvMinio_new k)"
      using o0 o1 by auto
  qed
  have w2: "world_at (providers ?c) EnvMinio_new (length (providers ?c)) =
      \<lparr>minioRetrieved = True\<rparr>"
    by (simp add: exhaustedChain_def ChainCredentials_new_def numeral_2_eq_2
          StaticCred_provider_def EnvMinio_provider_def EnvMinio_retrieve_def EnvMinio_new_def
          Let_def)
  have u: "[0..<length (providers ?c)] = [0, 1]"
    by (simp add: exhaustedChain_def ChainCredentials_new_def upt_conv_Cons)
  from C8_exhausted_chain_is_anonymous [OF h]
  have "Chain_retrieve_from ?c 0 EnvMinio_new =
       (Inr \<lparr>accessKey = '''', secretKey = '''', sessionToken = None,
             signerType = Anonymous\<rparr>,
        world_at (providers ?c) EnvMinio_new (length (providers ?c)),
        [0..<length (providers ?c)])"
    by (rule conjunct1)
  then have r: "Chain_retrieve_from ?c 0 EnvMinio_new =
       (Inr \<lparr>accessKey = '''', secretKey = '''', sessionToken = None,
             signerType = Anonymous\<rparr>, \<lparr>minioRetrieved = True\<rparr>, [0, 1])"
    by (simp only: w2 u)
  have l: "length (providers ?c) = 2"
    by (simp add: exhaustedChain_def ChainCredentials_new_def)
  from l o0 o1 r show ?thesis by simp
qed

text \<open>The chain without providers resolves with the anonymous credential at once.\<close>

lemma empty_chain_is_anonymous:
  "Chain_retrieve (ChainCredentials_new []) w =
     (Inr AnonymousCredentials, ChainCredentials_new [], w)"
  by (simp add: Chain_retrieve_def Chain_retrieve_from_run ChainCredentials_new_def)

subsection \<open>The current provider\<close>

text \<open>
  Claim C3, evaluated where the source departs from it. In the chain
  \<^verbatim>\<open>[P1(empty), P2(valid), P3]\<close> the call of \<open>retrieve\<close> is satisfied by P2: it resolves
  with the credential of P2 after calling P1 and P2. The chain object comes out of the
  call as it went in, with no current provider, so \<open>isExpired\<close> of the chain answers
  true afterwards, where \<open>isExpired\<close> of P2 answers false: no statement of the class
  assigns \<open>curr\<close>.
\<close>

theorem C3_curr_is_never_recorded:
  "Chain_retrieve_from (ChainCredentials_new [emptyStatic, validStatic, failingProvider]) 0 0 =
     (Inr validCred, 0, [0, 1])
   \<and> Chain_retrieve (ChainCredentials_new [emptyStatic, validStatic, failingProvider]) 0 =
     (Inr validCred, \<lparr>providers = [emptyStatic, validStatic, failingProvider], curr = None\<rparr>, 0)
   \<and> Chain_isExpired \<lparr>providers = [emptyStatic, validStatic, failingProvider], curr = None\<rparr> 0
   \<and> \<not> isExpired validStatic 0"
  by (simp add: Chain_retrieve_def Chain_retrieve_from_run ChainCredentials_new_def
        Chain_isExpired_def emptyStatic_def validStatic_def StaticCred_provider_def
        StaticCred_retrieve_def StaticCred_new_def StaticCred_isExpired_def validCred_def)

text \<open>So it is for every chain made by the constructor, after any call of \<open>retrieve\<close>
  and in any world.\<close>

lemma Chain_isExpired_after_retrieve:
  "Chain_isExpired (fst (snd (Chain_retrieve (ChainCredentials_new ps) w))) w2"
  by (simp add: Chain_retrieve_def Chain_isExpired_def ChainCredentials_new_def
        split: prod.splits)

end
